theory Spec2Isabelle
  imports Main
begin

section \<open>Errors\<close>

text \<open>
  Every error value the modelled code can return. The sentinel errors of package
  \<^verbatim>\<open>models\<close> are constructors of their own; \<^verbatim>\<open>fmt.Errorf\<close> without and with a wrapped
  error (\<^verbatim>\<open>%w\<close>) keep the message text; errors produced by the standard library or by
  the transport belong to a class of their own each, carrying the message. The last
  constructor stands for the panic of a nil pointer dereference.
\<close>

datatype error =
    ErrNoSite
  | ErrNoIssuesSlice
  | ErrNoJQL
  | ErrNotFound
  | ErrUnauthorized
  | ErrInternal
  | ErrBadRequest
  | ErrInvalidStatusCode
  | Errorf string
  | ErrorfWrap string error
  | URLError string
  | JSONError string
  | IOError string
  | RequestError string
  | TransportError string
  | OAuthError string
  | NilPointerPanic

section \<open>HTTP data\<close>

text \<open>
  A Go string is a byte sequence, as is \<^typ>\<open>string\<close>. \<^verbatim>\<open>http.Header\<close> is a map from
  (canonical) keys to value lists; every key used below is already in canonical form.
\<close>

type_synonym Header = "string \<rightharpoonup> string list"

definition Header_Set :: "Header \<Rightarrow> string \<Rightarrow> string \<Rightarrow> Header" where
  "Header_Set h k v = h(k \<mapsto> [v])"

definition Header_Add :: "Header \<Rightarrow> string \<Rightarrow> string \<Rightarrow> Header" where
  "Header_Add h k v = h(k \<mapsto> (case h k of None \<Rightarrow> [v] | Some vs \<Rightarrow> vs @ [v]))"

record Request =
  Method :: string
  URL :: string
  Header :: Header
  Body :: string

text \<open>
  \<^verbatim>\<open>http.Response\<close>: the status code, the request that produced it (its URL is the
  resolved one), and what \<^verbatim>\<open>io.ReadAll(response.Body)\<close> yields: the bytes, or the
  message of the read error.
\<close>

record Response =
  StatusCode :: int
  Request :: Request
  Body_R :: "string + string"

text \<open>\<^verbatim>\<open>models.ResponseScheme\<close>, the envelope.\<close>

record ResponseScheme =
  Response :: Response
  Code :: int
  Endpoint :: string
  Method_S :: string
  Bytes :: string

text \<open>
  The body argument of \<^verbatim>\<open>NewRequest\<close> is an \<^verbatim>\<open>interface{}\<close>: the nil interface, a
  (non-nil) \<^verbatim>\<open>*bytes.Buffer\<close> with its unread bytes, or any other value.
\<close>

datatype 'a body = NilBody | Buffer string | Value 'a

section \<open>Credential state\<close>

text \<open>
  \<^verbatim>\<open>common.Authentication\<close> as the request builder observes it: one field for each query
  it calls.
\<close>

record Authentication =
  HasBasicAuth :: bool
  GetBasicAuth :: "string \<times> string"
  HasUserAgent :: bool
  GetUserAgent :: string
  GetBearerToken :: string

definition NewAuthenticationService :: Authentication where
  \<comment> \<open>Modelled from the spec: \<^verbatim>\<open>internal.NewAuthenticationService\<close> is not among the
      sources; a client starts with an empty credential state.\<close>
  "NewAuthenticationService =
     \<lparr>HasBasicAuth = False, GetBasicAuth = ('''', ''''), HasUserAgent = False,
      GetUserAgent = '''', GetBearerToken = ''''\<rparr>"

definition SetBearerToken :: "string \<Rightarrow> Authentication \<Rightarrow> Authentication" where
  \<comment> \<open>Modelled from the spec: the setter is not among the sources; token renewal
      overwrites the bearer field.\<close>
  "SetBearerToken tok a = a\<lparr>GetBearerToken := tok\<rparr>"

section \<open>The client and its environment\<close>

record ('h, 'o, 'u) Client =
  HTTP :: 'h
  Auth :: Authentication
  OAuth :: "'o option"
  Site :: 'u

text \<open>
  The service fields of \<^verbatim>\<open>Client\<close> (Audit, Role, ..., Archival) only point back to the
  client; they are left out of the record.

  What the client calls outside this repository's sources is a parameter:
  \<^item> \<open>url_Parse\<close>, \<open>ResolveReference\<close>, \<open>url_String\<close>: package \<^verbatim>\<open>net/url\<close>, over a type of
    parsed URLs; a parse error carries its message;
  \<^item> \<open>json_Encode\<close>: what \<^verbatim>\<open>json.NewEncoder(buf).Encode\<close> writes for a value that is no
    byte buffer, or its error; \<open>json_Unmarshal\<close>: \<^verbatim>\<open>json.Unmarshal\<close> into a destination,
    giving the error (if any) and the destination as it is afterwards;
  \<^item> \<open>http_NewRequestWithContext\<close>: the checks of \<^verbatim>\<open>http.NewRequestWithContext\<close> on the
    context, the method and the URL text (the error message, or none);
  \<^item> \<open>basicAuth\<close>: the encoding of user name and password of \<^verbatim>\<open>net/http\<close>;
  \<^item> \<open>Do\<close>: the method \<^verbatim>\<open>Do\<close> of a transport, giving a response or the message of a
    transport failure; \<open>DefaultClient\<close>: \<^verbatim>\<open>http.DefaultClient\<close>;
  \<^item> \<open>NewServices\<close>: the service constructors of package \<^verbatim>\<open>internal\<close> that \<^verbatim>\<open>New\<close>
    calls one after the other with the API version, giving the first error, if any.
\<close>

record ('u, 'c, 'a, 'd, 'h) env =
  url_Parse :: "string \<Rightarrow> string + 'u"
  ResolveReference :: "'u \<Rightarrow> 'u \<Rightarrow> 'u"
  url_String :: "'u \<Rightarrow> string"
  json_Encode :: "'a \<Rightarrow> string + string"
  json_Unmarshal :: "string \<Rightarrow> 'd \<Rightarrow> string option \<times> 'd"
  http_NewRequestWithContext :: "'c \<Rightarrow> string \<Rightarrow> string \<Rightarrow> string option"
  basicAuth :: "string \<Rightarrow> string \<Rightarrow> string"
  Do :: "'h \<Rightarrow> Request \<Rightarrow> string + Response"
  DefaultClient :: 'h
  NewServices :: "string \<Rightarrow> error option"

definition APIVersion :: string where
  "APIVersion = ''3''"

section \<open>Request pipeline\<close>

definition encodeBody :: "('u, 'c, 'a, 'd, 'h) env \<Rightarrow> 'a body \<Rightarrow> error + string" where
  \<comment> \<open>\<^verbatim>\<open>buf := new(bytes.Buffer); if body != nil { json.NewEncoder(buf).Encode(body) }\<close>.
      A \<^verbatim>\<open>*bytes.Buffer\<close> has no exported field: it encodes as an empty object.\<close>
  "encodeBody E body =
     (case body of
        NilBody \<Rightarrow> Inr ''''
      | Buffer b \<Rightarrow> Inr (''{}'' @ [CHR 0x0A])
      | Value v \<Rightarrow> (case json_Encode E v of Inl m \<Rightarrow> Inl (JSONError m) | Inr s \<Rightarrow> Inr s))"

text \<open>
  The header block of \<^verbatim>\<open>NewRequest\<close>: the request made by
  \<^verbatim>\<open>http.NewRequestWithContext\<close> has an empty header, and each statement works on it in
  place. \<^verbatim>\<open>req.SetBasicAuth(username, password)\<close> sets the Authorization header to the
  basic scheme and the encoded pair.
\<close>

definition requestHeaders ::
  "('u, 'c, 'a, 'd, 'h) env \<Rightarrow> Authentication \<Rightarrow> string \<Rightarrow> 'a body \<Rightarrow> Header" where
  "requestHeaders E auth contentType body =
     (let h0 = Map.empty;
          h1 = Header_Set h0 ''Accept'' ''application/json'';
          h2 = (if body \<noteq> NilBody
                then Header_Set h1 ''Content-Type'' ''application/json''
                else h1);
          h3 = (if contentType \<noteq> ''''
                then Header_Set (Header_Set h2 ''Content-Type'' contentType)
                       ''X-Atlassian-Token'' ''no-check''
                else h2);
          h4 = (if HasBasicAuth auth
                then Header_Set h3 ''Authorization''
                       (''Basic '' @ basicAuth E (fst (GetBasicAuth auth)) (snd (GetBasicAuth auth)))
                else h3);
          h5 = (if HasUserAgent auth
                then Header_Set h4 ''User-Agent'' (GetUserAgent auth)
                else h4);
          h6 = (if GetBearerToken auth \<noteq> '''' \<and> \<not> HasBasicAuth auth
                then Header_Add h5 ''Authorization'' (''Bearer '' @ GetBearerToken auth)
                else h5)
      in h6)"

definition Client_NewRequest ::
  "('u, 'c, 'a, 'd, 'h) env \<Rightarrow> ('h, 'o, 'u) Client \<Rightarrow> 'c \<Rightarrow> string \<Rightarrow> string \<Rightarrow> string \<Rightarrow> 'a body
     \<Rightarrow> error + Request" where
  "Client_NewRequest E c ctx method urlStr contentType body =
     (case url_Parse E urlStr of
        Inl m \<Rightarrow> Inl (URLError m)
      | Inr rel \<Rightarrow>
          let u = ResolveReference E (Site c) rel in
          (case encodeBody E body of
             Inl e \<Rightarrow> Inl e
           | Inr encoded \<Rightarrow>
               let buf = (case body of Buffer attachBuffer \<Rightarrow> attachBuffer | _ \<Rightarrow> encoded) in
               (case http_NewRequestWithContext E ctx method (url_String E u) of
                  Some m \<Rightarrow> Inl (RequestError m)
                | None \<Rightarrow>
                    Inr \<lparr>Method = (if method = '''' then ''GET'' else method),
                         URL = url_String E u,
                         Header = requestHeaders E (Auth c) contentType body,
                         Body = buf\<rparr>)))"

section \<open>Response classifier\<close>

definition Client_processResponse ::
  "('u, 'c, 'a, 'd, 'h) env \<Rightarrow> Response \<Rightarrow> 'd option
     \<Rightarrow> ResponseScheme option \<times> error option \<times> 'd option" where
  "Client_processResponse E response structure =
     (let res = \<lparr>Response = response, Code = StatusCode response,
                 Endpoint = URL (Request response), Method_S = Method (Request response),
                 Bytes = ''''\<rparr>
      in case Body_R response of
           Inl m \<Rightarrow> (Some res, Some (IOError m), structure)
         | Inr responseAsBytes \<Rightarrow>
             let res' = res\<lparr>Bytes := Bytes res @ responseAsBytes\<rparr>;
                 wasSuccess = (StatusCode response \<ge> 200 \<and> StatusCode response < 300)
             in if \<not> wasSuccess then
                  (if StatusCode response = 404 then (Some res', Some ErrNotFound, structure)
                   else if StatusCode response = 401 then (Some res', Some ErrUnauthorized, structure)
                   else if StatusCode response = 500 then (Some res', Some ErrInternal, structure)
                   else if StatusCode response = 400 then (Some res', Some ErrBadRequest, structure)
                   else (Some res', Some ErrInvalidStatusCode, structure))
                else
                  (case structure of
                     None \<Rightarrow> (Some res', None, None)
                   | Some dst \<Rightarrow>
                       (case json_Unmarshal E responseAsBytes dst of
                          (Some m, dst') \<Rightarrow> (Some res', Some (JSONError m), Some dst')
                        | (None, dst') \<Rightarrow> (Some res', None, Some dst'))))"

definition Client_Call ::
  "('u, 'c, 'a, 'd, 'h) env \<Rightarrow> ('h, 'o, 'u) Client \<Rightarrow> Request \<Rightarrow> 'd option
     \<Rightarrow> ResponseScheme option \<times> error option \<times> 'd option" where
  "Client_Call E c request structure =
     (case Do E (HTTP c) request of
        Inl m \<Rightarrow> (None, Some (TransportError m), structure)
      | Inr response \<Rightarrow> Client_processResponse E response structure)"

section \<open>Issue archival\<close>

text \<open>\<^verbatim>\<open>pkg/infra/models/issue_archival.go\<close>\<close>

record IssueArchivalErrorScheme =
  Count :: int
  IssueIdsOrKeys :: "string list"
  Message :: string

record IssueArchivalSyncErrorScheme =
  IssueIsSubtask :: "IssueArchivalErrorScheme option"
  IssuesInArchivedProjects :: "IssueArchivalErrorScheme option"
  IssuesInUnlicensedProjects :: "IssueArchivalErrorScheme option"
  IssuesNotFound :: "IssueArchivalErrorScheme option"
  UserDoesNotHavePermission :: "IssueArchivalErrorScheme option"

record IssueArchivalSyncResponseScheme =
  Errors :: "IssueArchivalSyncErrorScheme option"
  NumberOfIssuesUpdated :: int

record DateRangeFilterRequestScheme =
  DateAfter :: string
  DateBefore :: string

record IssueArchivalExportPayloadScheme =
  ArchivedBy :: "string list"
  ArchivedDateRange :: "DateRangeFilterRequestScheme option"
  IssueTypes :: "string list"
  Projects :: "string list"
  Reporters :: "string list"

definition new_IssueArchivalSyncResponseScheme :: IssueArchivalSyncResponseScheme where
  \<comment> \<open>\<^verbatim>\<open>new(model.IssueArchivalSyncResponseScheme)\<close>: the zero value\<close>
  "new_IssueArchivalSyncResponseScheme = \<lparr>Errors = None, NumberOfIssuesUpdated = 0\<rparr>"

text \<open>
  The bodies the archival methods pass to \<^verbatim>\<open>NewRequest\<close>: a \<^verbatim>\<open>map[string]interface{}\<close>
  holding a string or a string slice, or the export payload pointer (which may be nil).
\<close>

datatype payload_value = Str string | StrList "string list"

datatype archive_body =
    MapPayload "(string \<times> payload_value) list"
  | ExportPayload "IssueArchivalExportPayloadScheme option"

text \<open>
  \<^verbatim>\<open>service.Connector\<close>, the interface the resource layer calls: a record of its two
  methods.
\<close>

record 'c Connector =
  NewRequest :: "'c \<Rightarrow> string \<Rightarrow> string \<Rightarrow> string \<Rightarrow> archive_body body \<Rightarrow> error + Request"
  Call :: "Request \<Rightarrow> IssueArchivalSyncResponseScheme option
             \<Rightarrow> ResponseScheme option \<times> error option \<times> IssueArchivalSyncResponseScheme option"

record 'c internalIssueArchivalImpl =
  connector :: "'c Connector"
  version :: string

text \<open>
  Each method returns its three results and, after them, the connector calls it made, in
  order: a request built (\<^verbatim>\<open>NewRequest\<close> with its method and endpoint) or a request
  sent (\<^verbatim>\<open>Call\<close>).
\<close>

datatype connector_call = Built string string | Sent Request

text \<open>
  \<^verbatim>\<open>path.Base\<close> of the Go standard library: the last element of a path. An empty path
  gives a dot; trailing slashes are removed first; a path of slashes only gives a slash.
\<close>

definition stripTrailingSlashes :: "string \<Rightarrow> string" where
  "stripTrailingSlashes p = rev (dropWhile (\<lambda>x. x = CHR ''/'') (rev p))"

definition afterLastSlash :: "string \<Rightarrow> string" where
  "afterLastSlash p = rev (takeWhile (\<lambda>x. x \<noteq> CHR ''/'') (rev p))"

definition path_Base :: "string \<Rightarrow> string" where
  "path_Base p =
     (if p = '''' then ''.''
      else let q = afterLastSlash (stripTrailingSlashes p)
           in if q = '''' then ''/'' else q)"

definition Preserve ::
  "'c internalIssueArchivalImpl \<Rightarrow> 'c \<Rightarrow> string list
     \<Rightarrow> (IssueArchivalSyncResponseScheme option \<times> ResponseScheme option \<times> error option)
         \<times> connector_call list" where
  "Preserve i ctx issueIdsOrKeys =
     (if length issueIdsOrKeys = 0 then ((None, None, Some ErrNoIssuesSlice), [])
      else
        let payload = MapPayload [(''issueIdsOrKeys'', StrList issueIdsOrKeys)];
            endpoint = ''rest/api/'' @ version i @ ''/issue/archive''
        in case NewRequest (connector i) ctx ''PUT'' endpoint '''' (Value payload) of
             Inl e \<Rightarrow> ((None, None, Some e), [Built ''PUT'' endpoint])
           | Inr request \<Rightarrow>
               let report = new_IssueArchivalSyncResponseScheme
               in (case Call (connector i) request (Some report) of
                     (response, Some e, _) \<Rightarrow>
                       ((None, response, Some e), [Built ''PUT'' endpoint, Sent request])
                   | (response, None, report') \<Rightarrow>
                       ((report', response, None), [Built ''PUT'' endpoint, Sent request])))"

definition PreserveByJQL ::
  "'c internalIssueArchivalImpl \<Rightarrow> 'c \<Rightarrow> string
     \<Rightarrow> (string \<times> ResponseScheme option \<times> error option) \<times> connector_call list" where
  "PreserveByJQL i ctx jql =
     (if jql = '''' then (('''', None, Some ErrNoJQL), [])
      else
        let payload = MapPayload [(''jql'', Str jql)];
            endpoint = ''rest/api/'' @ version i @ ''/issue/archive''
        in case NewRequest (connector i) ctx ''POST'' endpoint '''' (Value payload) of
             Inl e \<Rightarrow> (('''', None, Some e), [Built ''POST'' endpoint])
           | Inr request \<Rightarrow>
               (case Call (connector i) request None of
                  (response, Some e, _) \<Rightarrow>
                    (('''', response, Some e), [Built ''POST'' endpoint, Sent request])
                | (Some response, None, _) \<Rightarrow>
                    ((path_Base (Bytes response), Some response, None),
                     [Built ''POST'' endpoint, Sent request])
                | (None, None, _) \<Rightarrow>
                    \<comment> \<open>\<^verbatim>\<open>response.Bytes\<close> on a nil response\<close>
                    (('''', None, Some NilPointerPanic), [Built ''POST'' endpoint, Sent request])))"

definition Restore ::
  "'c internalIssueArchivalImpl \<Rightarrow> 'c \<Rightarrow> string list
     \<Rightarrow> (IssueArchivalSyncResponseScheme option \<times> ResponseScheme option \<times> error option)
         \<times> connector_call list" where
  "Restore i ctx issueIdsOrKeys =
     (if length issueIdsOrKeys = 0 then ((None, None, Some ErrNoIssuesSlice), [])
      else
        let payload = MapPayload [(''issueIdsOrKeys'', StrList issueIdsOrKeys)];
            endpoint = ''rest/api/'' @ version i @ ''/issue/unarchive''
        in case NewRequest (connector i) ctx ''PUT'' endpoint '''' (Value payload) of
             Inl e \<Rightarrow> ((None, None, Some e), [Built ''PUT'' endpoint])
           | Inr request \<Rightarrow>
               let report = new_IssueArchivalSyncResponseScheme
               in (case Call (connector i) request (Some report) of
                     (response, Some e, _) \<Rightarrow>
                       ((None, response, Some e), [Built ''PUT'' endpoint, Sent request])
                   | (response, None, report') \<Rightarrow>
                       ((report', response, None), [Built ''PUT'' endpoint, Sent request])))"

definition Export ::
  "'c internalIssueArchivalImpl \<Rightarrow> 'c \<Rightarrow> IssueArchivalExportPayloadScheme option
     \<Rightarrow> (string \<times> ResponseScheme option \<times> error option) \<times> connector_call list" where
  "Export i ctx payload =
     (let endpoint = ''rest/api/'' @ version i @ ''/issues/archive/export''
      in case NewRequest (connector i) ctx ''PUT'' endpoint '''' (Value (ExportPayload payload)) of
           Inl e \<Rightarrow> (('''', None, Some e), [Built ''PUT'' endpoint])
         | Inr request \<Rightarrow>
             (case Call (connector i) request None of
                (response, Some e, _) \<Rightarrow>
                  (('''', response, Some e), [Built ''PUT'' endpoint, Sent request])
              | (response, None, _) \<Rightarrow>
                  (('''', response, None), [Built ''PUT'' endpoint, Sent request])))"

text \<open>The version 3 client as a connector, and the archival service \<^verbatim>\<open>New\<close> installs.\<close>

definition Client_Connector ::
  "('u, 'c, archive_body, IssueArchivalSyncResponseScheme, 'h) env \<Rightarrow> ('h, 'o, 'u) Client
     \<Rightarrow> 'c Connector" where
  "Client_Connector E c = \<lparr>NewRequest = Client_NewRequest E c, Call = Client_Call E c\<rparr>"

definition NewIssueArchivalService :: "'c Connector \<Rightarrow> string \<Rightarrow> 'c internalIssueArchivalImpl" where
  "NewIssueArchivalService client v = \<lparr>connector = client, version = v\<rparr>"

section \<open>Client configuration\<close>

text \<open>
  \<^verbatim>\<open>common.OAuth2Token\<close> is not among the sources; of its fields the options read the
  access token only. Modelled from the spec: a token has an access token and a refresh
  token.
\<close>

record OAuth2Token =
  AccessToken :: string
  RefreshToken :: string

text \<open>
  Package \<^verbatim>\<open>oauth2\<close> is not among the sources. The options below only call it, so its
  functions are parameters: building the OAuth service, setting up the token sources
  (the reusing source is the one kept), finding the base transport, finding the wrapper
  of a wrapped client (its \<^verbatim>\<open>OriginalClient\<close>), creating the OAuth transport (it keeps
  a reference to the client's credential state), and attaching a store or a callback to
  the wrapped client.
\<close>

record ('h, 'o, 'cfg, 'src, 'rt, 's, 'k) oauth2 =
  NewOAuth2Service :: "'h \<Rightarrow> 'cfg \<Rightarrow> string + 'o"
  SetupTokenSourcesWithStorage :: "OAuth2Token \<Rightarrow> 'o \<Rightarrow> 'h \<Rightarrow> string + 'src"
  ExtractBaseTransport :: "'h \<Rightarrow> 'rt"
  ExtractWrapper :: "'h \<Rightarrow> 'h option"
  CreateOAuthTransport :: "'src \<Rightarrow> 'rt \<Rightarrow> 'h"
  WrapHTTPClient_WithStore :: "'h \<Rightarrow> 's \<Rightarrow> 'h"
  WrapHTTPClient_WithCallback :: "'h \<Rightarrow> 'k \<Rightarrow> 'h"

text \<open>
  \<^verbatim>\<open>type ClientOption func(*Client) error\<close>: an option works on the client in place and
  reports an error or nil; the model returns the error and the client as the option
  left it.
\<close>

type_synonym ('h, 'o, 'u) ClientOption =
  "('h, 'o, 'u) Client \<Rightarrow> error option \<times> ('h, 'o, 'u) Client"

definition WithOAuth ::
  "('h, 'o, 'cfg, 'src, 'rt, 's, 'k) oauth2 \<Rightarrow> 'cfg option \<Rightarrow> ('h, 'o, 'u) ClientOption" where
  "WithOAuth P config c =
     (case config of
        None \<Rightarrow> (Some (Errorf ''oauth config cannot be nil''), c)
      | Some cfg \<Rightarrow>
          (case NewOAuth2Service P (HTTP c) cfg of
             Inl m \<Rightarrow> (Some (ErrorfWrap ''failed to create OAuth service: '' (OAuthError m)), c)
           | Inr oauthService \<Rightarrow> (None, c\<lparr>OAuth := Some oauthService\<rparr>)))"

definition WithAutoRenewalToken ::
  "('h, 'o, 'cfg, 'src, 'rt, 's, 'k) oauth2 \<Rightarrow> OAuth2Token option \<Rightarrow> ('h, 'o, 'u) ClientOption" where
  "WithAutoRenewalToken P token c =
     (case token of
        None \<Rightarrow> (Some (Errorf ''token cannot be nil for auto-renewal''), c)
      | Some tok \<Rightarrow>
          (case OAuth c of
             None \<Rightarrow>
               (Some (Errorf ''OAuth must be configured before enabling auto-renewal (use WithOAuth first)''), c)
           | Some svc \<Rightarrow>
               (case SetupTokenSourcesWithStorage P tok svc (HTTP c) of
                  Inl m \<Rightarrow> (Some (ErrorfWrap ''failed to setup token sources: '' (OAuthError m)), c)
                | Inr reuseSource \<Rightarrow>
                    let base = ExtractBaseTransport P (HTTP c);
                        c1 = (case ExtractWrapper P (HTTP c) of
                                Some OriginalClient \<Rightarrow> c\<lparr>HTTP := OriginalClient\<rparr>
                              | None \<Rightarrow> c);
                        c2 = c1\<lparr>HTTP := CreateOAuthTransport P reuseSource base\<rparr>;
                        c3 = c2\<lparr>Auth := SetBearerToken (AccessToken tok) (Auth c2)\<rparr>
                    in (None, c3))))"

definition WithOAuthWithAutoRenewal ::
  "('h, 'o, 'cfg, 'src, 'rt, 's, 'k) oauth2 \<Rightarrow> 'cfg option \<Rightarrow> OAuth2Token option
     \<Rightarrow> ('h, 'o, 'u) ClientOption" where
  "WithOAuthWithAutoRenewal P config token c =
     (case WithOAuth P config c of
        (Some err, c') \<Rightarrow> (Some err, c')
      | (None, c') \<Rightarrow> WithAutoRenewalToken P token c')"

definition WithTokenStore ::
  "('h, 'o, 'cfg, 'src, 'rt, 's, 'k) oauth2 \<Rightarrow> 's option \<Rightarrow> ('h, 'o, 'u) ClientOption" where
  "WithTokenStore P store c =
     (case store of
        None \<Rightarrow> (Some (Errorf ''token store cannot be nil''), c)
      | Some st \<Rightarrow> (None, c\<lparr>HTTP := WrapHTTPClient_WithStore P (HTTP c) st\<rparr>))"

definition WithTokenCallback ::
  "('h, 'o, 'cfg, 'src, 'rt, 's, 'k) oauth2 \<Rightarrow> 'k option \<Rightarrow> ('h, 'o, 'u) ClientOption" where
  "WithTokenCallback P callback c =
     (case callback of
        None \<Rightarrow> (Some (Errorf ''token callback cannot be nil''), c)
      | Some cb \<Rightarrow> (None, c\<lparr>HTTP := WrapHTTPClient_WithCallback P (HTTP c) cb\<rparr>))"

text \<open>
  The loop of \<^verbatim>\<open>New\<close> over its options: it stops at the first error. The client is
  returned as the loop left it, also at an error (\<^verbatim>\<open>New\<close> then drops it).
\<close>

fun applyOptions ::
  "('h, 'o, 'u) ClientOption list \<Rightarrow> ('h, 'o, 'u) Client \<Rightarrow> error option \<times> ('h, 'o, 'u) Client" where
  "applyOptions [] client = (None, client)"
| "applyOptions (option # options) client =
     (case option client of
        (Some err, client') \<Rightarrow> (Some err, client')
      | (None, client') \<Rightarrow> applyOptions options client')"

definition HasSuffix :: "string \<Rightarrow> string \<Rightarrow> bool" where
  \<comment> \<open>\<^verbatim>\<open>strings.HasSuffix\<close>\<close>
  "HasSuffix s suffix =
     (length suffix \<le> length s \<and> drop (length s - length suffix) s = suffix)"

text \<open>
  \<^verbatim>\<open>New\<close> up to its option loop: the default transport, the site, the client value
  and the services (all built for the constant API version).
\<close>

definition newClient ::
  "('u, 'c, 'a, 'd, 'h) env \<Rightarrow> 'h option \<Rightarrow> string \<Rightarrow> error + ('h, 'o, 'u) Client" where
  "newClient E httpClient site =
     (let httpClient' = (case httpClient of None \<Rightarrow> DefaultClient E | Some h \<Rightarrow> h)
      in if site = '''' then Inl ErrNoSite
         else
           let site' = (if \<not> HasSuffix site ''/'' then site @ ''/'' else site)
           in case url_Parse E site' of
                Inl m \<Rightarrow> Inl (URLError m)
              | Inr u \<Rightarrow>
                  let client = \<lparr>HTTP = httpClient', Auth = NewAuthenticationService,
                                OAuth = None, Site = u\<rparr>
                  in (case NewServices E APIVersion of
                        Some err \<Rightarrow> Inl err
                      | None \<Rightarrow> Inr (client\<lparr>Auth := NewAuthenticationService\<rparr>)))"

definition New ::
  "('u, 'c, 'a, 'd, 'h) env \<Rightarrow> 'h option \<Rightarrow> string \<Rightarrow> ('h, 'o, 'u) ClientOption list
     \<Rightarrow> error + ('h, 'o, 'u) Client" where
  "New E httpClient site options =
     (case newClient E httpClient site of
        Inl err \<Rightarrow> Inl err
      | Inr client \<Rightarrow>
          (case applyOptions options client of
             (Some err, _) \<Rightarrow> Inl err
           | (None, client') \<Rightarrow> Inr client'))"

section \<open>Notions used in the statements\<close>

text \<open>The fixed taxonomy of status errors, as the specification words it.\<close>

definition status_taxonomy :: "int \<Rightarrow> error" where
  "status_taxonomy code =
     (if code = 404 then ErrNotFound
      else if code = 401 then ErrUnauthorized
      else if code = 500 then ErrInternal
      else if code = 400 then ErrBadRequest
      else ErrInvalidStatusCode)"

text \<open>The populated envelope of a response whose buffered body is \<open>bs\<close>.\<close>

definition envelope :: "Response \<Rightarrow> string \<Rightarrow> ResponseScheme" where
  "envelope response bs =
     \<lparr>Response = response, Code = StatusCode response, Endpoint = URL (Request response),
      Method_S = Method (Request response), Bytes = bs\<rparr>"

text \<open>An option that never installs OAuth: a client without it is left without it.\<close>

definition leaves_OAuth_unset :: "('h, 'o, 'u) ClientOption \<Rightarrow> bool" where
  "leaves_OAuth_unset opt = (\<forall>c. OAuth c = None \<longrightarrow> OAuth (snd (opt c)) = None)"

section \<open>A concrete environment\<close>

text \<open>
  For evaluating the model: URLs are their text and a reference resolves by appending
  it to the base; every value encodes as an empty object; only an empty object decodes;
  a transport is its own \<^verbatim>\<open>Do\<close>.
\<close>

type_synonym transport = "Request \<Rightarrow> string + Response"

definition example_env ::
  "(string, unit, archive_body, IssueArchivalSyncResponseScheme, transport) env" where
  "example_env =
     \<lparr>url_Parse = Inr,
      ResolveReference = (\<lambda>base rel. base @ rel),
      url_String = (\<lambda>u. u),
      json_Encode = (\<lambda>v. Inr (''{}'' @ [CHR 0x0A])),
      json_Unmarshal = (\<lambda>bs dst. if bs = ''{}'' then (None, dst)
                                   else (Some ''invalid character'', dst)),
      http_NewRequestWithContext = (\<lambda>ctx method url. None),
      basicAuth = (\<lambda>username password. username @ '':'' @ password),
      Do = (\<lambda>h. h),
      DefaultClient = (\<lambda>request. Inl ''no network''),
      NewServices = (\<lambda>v. None)\<rparr>"

definition answer :: "int \<Rightarrow> string \<Rightarrow> string + string \<Rightarrow> transport" where
  \<comment> \<open>a transport that answers every request with this status, resolved URL and body\<close>
  "answer code url b =
     (\<lambda>request. Inr \<lparr>StatusCode = code, Request = request\<lparr>URL := url\<rparr>, Body_R = b\<rparr>)"

definition example_client :: "transport \<Rightarrow> Authentication \<Rightarrow> (transport, nat, string) Client" where
  "example_client h a = \<lparr>HTTP = h, Auth = a, OAuth = None, Site = ''https://x.atlassian.net/''\<rparr>"

definition example_request :: Request where
  "example_request =
     \<lparr>Method = ''PUT'', URL = ''https://x.atlassian.net/rest/api/3/issue/archive'',
      Header = Map.empty, Body = ''''\<rparr>"

definition example_oauth2 ::
  "(transport, nat, string, string, transport, string, string) oauth2" where
  "example_oauth2 =
     \<lparr>NewOAuth2Service = (\<lambda>h cfg. if cfg = '''' then Inl ''missing client id'' else Inr 1),
      SetupTokenSourcesWithStorage = (\<lambda>tok svc h. Inr (AccessToken tok)),
      ExtractBaseTransport = (\<lambda>h. h),
      ExtractWrapper = (\<lambda>h. None),
      CreateOAuthTransport = (\<lambda>src base. base),
      WrapHTTPClient_WithStore = (\<lambda>h st. h),
      WrapHTTPClient_WithCallback = (\<lambda>h cb. h)\<rparr>"

definition archive_url :: string where
  "archive_url = ''https://x.atlassian.net/rest/api/3/issue/archive''"

definition task_url :: string where
  "task_url = ''https://x.atlassian.net/rest/api/3/task/10042''"

definition example_archival ::
  "int \<Rightarrow> string \<Rightarrow> string + string \<Rightarrow> unit internalIssueArchivalImpl" where
  \<comment> \<open>the archival service of a client without credentials whose transport gives this answer\<close>
  "example_archival code url b =
     NewIssueArchivalService
       (Client_Connector example_env (example_client (answer code url b) NewAuthenticationService))
       APIVersion"

definition example_response :: "int \<Rightarrow> string + string \<Rightarrow> Response" where
  \<comment> \<open>the answer to \<open>example_request\<close> with this status and body\<close>
  "example_response code b = \<lparr>StatusCode = code, Request = example_request, Body_R = b\<rparr>"

definition example_token :: OAuth2Token where
  "example_token = \<lparr>AccessToken = ''access-1'', RefreshToken = ''refresh-1''\<rparr>"

definition offline :: transport where
  "offline = (\<lambda>request. Inl ''no network'')"

definition both_credentials :: Authentication where
  \<comment> \<open>basic-auth, a bearer token and a user agent, all set\<close>
  "both_credentials =
     \<lparr>HasBasicAuth = True, GetBasicAuth = (''me@x.io'', ''secret''), HasUserAgent = True,
      GetUserAgent = ''agent/1'', GetBearerToken = ''token-1''\<rparr>"

definition jql_request :: Request where
  \<comment> \<open>the request \<open>PreserveByJQL\<close> builds on a client without credentials\<close>
  "jql_request =
     \<lparr>Method = ''POST'', URL = ''https://x.atlassian.net/rest/api/3/issue/archive'',
      Header = requestHeaders example_env NewAuthenticationService ''''
                 (Value (MapPayload [(''jql'', Str ''project = X'')])),
      Body = ''{}'' @ [CHR 0x0A]\<rparr>"

definition jql_response :: "int \<Rightarrow> string \<Rightarrow> string \<Rightarrow> Response" where
  \<comment> \<open>the answer to it with this status, resolved URL and body\<close>
  "jql_response code url bs =
     \<lparr>StatusCode = code, Request = jql_request\<lparr>URL := url\<rparr>, Body_R = Inr bs\<rparr>"

section \<open>Auxiliary facts\<close>

lemma Header_Set_apply: "Header_Set h k v k' = (if k' = k then Some [v] else h k')"
  by (simp add: Header_Set_def)

lemma Header_Add_apply:
  "Header_Add h k v k' =
     (if k' = k then Some (case h k of None \<Rightarrow> [v] | Some vs \<Rightarrow> vs @ [v]) else h k')"
  by (simp add: Header_Add_def)

lemma NewRequest_built:
  assumes "Client_NewRequest E c ctx method urlStr contentType body = Inr req"
  shows "\<exists>rel encoded.
           url_Parse E urlStr = Inr rel \<and> encodeBody E body = Inr encoded
           \<and> http_NewRequestWithContext E ctx method (url_String E (ResolveReference E (Site c) rel)) = None
           \<and> req = \<lparr>Method = (if method = '''' then ''GET'' else method),
                     URL = url_String E (ResolveReference E (Site c) rel),
                     Header = requestHeaders E (Auth c) contentType body,
                     Body = (case body of Buffer b \<Rightarrow> b | _ \<Rightarrow> encoded)\<rparr>"
  using assms unfolding Client_NewRequest_def Let_def
  by (auto split: sum.splits option.splits)

lemma NewRequest_succeeds:
  assumes "url_Parse E urlStr = Inr rel" and "encodeBody E body = Inr encoded"
    and "http_NewRequestWithContext E ctx method (url_String E (ResolveReference E (Site c) rel)) = None"
  shows "Client_NewRequest E c ctx method urlStr contentType body =
           Inr \<lparr>Method = (if method = '''' then ''GET'' else method),
                URL = url_String E (ResolveReference E (Site c) rel),
                Header = requestHeaders E (Auth c) contentType body,
                Body = (case body of Buffer b \<Rightarrow> b | _ \<Rightarrow> encoded)\<rparr>"
  using assms by (simp add: Client_NewRequest_def)

lemma encodeBody_Buffer: "encodeBody E (Buffer b) = Inr (''{}'' @ [CHR 0x0A])"
  by (simp add: encodeBody_def)

lemma requestHeaders_Accept:
  "requestHeaders E a contentType body ''Accept'' = Some [''application/json'']"
  by (simp add: requestHeaders_def Let_def Header_Set_apply Header_Add_apply)

lemma requestHeaders_ContentType:
  "requestHeaders E a contentType body ''Content-Type'' =
     (if contentType \<noteq> '''' then Some [contentType]
      else if body \<noteq> NilBody then Some [''application/json''] else None)"
  by (simp add: requestHeaders_def Let_def Header_Set_apply Header_Add_apply)

lemma requestHeaders_Token:
  "requestHeaders E a contentType body ''X-Atlassian-Token'' =
     (if contentType \<noteq> '''' then Some [''no-check''] else None)"
  by (simp add: requestHeaders_def Let_def Header_Set_apply Header_Add_apply)

lemma requestHeaders_UserAgent:
  "requestHeaders E a contentType body ''User-Agent'' =
     (if HasUserAgent a then Some [GetUserAgent a] else None)"
  by (simp add: requestHeaders_def Let_def Header_Set_apply Header_Add_apply)

lemma requestHeaders_Authorization:
  "requestHeaders E a contentType body ''Authorization'' =
     (if HasBasicAuth a
      then Some [''Basic '' @ basicAuth E (fst (GetBasicAuth a)) (snd (GetBasicAuth a))]
      else if GetBearerToken a \<noteq> '''' then Some [''Bearer '' @ GetBearerToken a]
      else None)"
  by (simp add: requestHeaders_def Let_def Header_Set_apply Header_Add_apply)

lemma processResponse_read:
  assumes "Body_R response = Inr bs"
  shows "Client_processResponse E response structure =
     (if 200 \<le> StatusCode response \<and> StatusCode response < 300
      then (case structure of
              None \<Rightarrow> (Some (envelope response bs), None, None)
            | Some dst \<Rightarrow>
                (case json_Unmarshal E bs dst of
                   (Some m, dst') \<Rightarrow> (Some (envelope response bs), Some (JSONError m), Some dst')
                 | (None, dst') \<Rightarrow> (Some (envelope response bs), None, Some dst')))
      else (Some (envelope response bs), Some (status_taxonomy (StatusCode response)), structure))"
  using assms
  by (simp add: Client_processResponse_def envelope_def status_taxonomy_def Let_def
        split: option.splits prod.splits)

lemma processResponse_unread:
  assumes "Body_R response = Inl m"
  shows "Client_processResponse E response structure =
           (Some (envelope response ''''), Some (IOError m), structure)"
  using assms by (simp add: Client_processResponse_def envelope_def)

lemma Call_without_error:
  assumes "Client_Call E c request structure = (r, None, d)"
  shows "\<exists>response bs. Do E (HTTP c) request = Inr response \<and> Body_R response = Inr bs
           \<and> 200 \<le> StatusCode response \<and> StatusCode response < 300
           \<and> r = Some (envelope response bs)"
proof (cases "Do E (HTTP c) request")
  case (Inl m)
  with assms show ?thesis by (simp add: Client_Call_def)
next
  case (Inr response)
  with assms have p: "Client_processResponse E response structure = (r, None, d)"
    by (simp add: Client_Call_def)
  show ?thesis
  proof (cases "Body_R response")
    case (Inl m)
    with p show ?thesis by (simp add: processResponse_unread)
  next
    case rd: (Inr bs)
    with p Inr show ?thesis
      by (auto simp add: processResponse_read split: if_splits option.splits prod.splits)
  qed
qed

lemma Call_JSONError:
  assumes "fst (snd (Client_Call E c request structure)) = Some (JSONError m)"
  shows "\<exists>response. Do E (HTTP c) request = Inr response
           \<and> 200 \<le> StatusCode response \<and> StatusCode response < 300"
proof (cases "Do E (HTTP c) request")
  case (Inl m')
  with assms show ?thesis by (simp add: Client_Call_def)
next
  case (Inr response)
  with assms have p: "fst (snd (Client_processResponse E response structure)) = Some (JSONError m)"
    by (simp add: Client_Call_def)
  show ?thesis
  proof (cases "Body_R response")
    case (Inl m')
    with p show ?thesis by (simp add: processResponse_unread)
  next
    case rd: (Inr bs)
    have "status_taxonomy (StatusCode response) \<noteq> JSONError m"
      by (simp add: status_taxonomy_def)
    with p rd Inr show ?thesis
      by (auto simp add: processResponse_read split: if_splits)
  qed
qed

lemma path_Base_last_segment:
  assumes "seg \<noteq> ''''" and "CHR ''/'' \<notin> set seg"
  shows "path_Base (pre @ ''/'' @ seg) = seg"
proof -
  have "rev seg \<noteq> []" using assms by simp
  then obtain x xs where rs: "rev seg = x # xs" by (cases "rev seg") auto
  have "x \<in> set seg" using rs by (metis list.set_intros(1) set_rev)
  then have x: "x \<noteq> CHR ''/''" using assms by auto
  have s: "stripTrailingSlashes (pre @ ''/'' @ seg) = pre @ ''/'' @ seg"
    using rs x by (simp add: stripTrailingSlashes_def)
  have t: "takeWhile (\<lambda>x. x \<noteq> CHR ''/'') (rev seg) = rev seg"
    using assms by auto
  have a: "afterLastSlash (pre @ ''/'' @ seg) = seg"
    using assms t by (simp add: afterLastSlash_def takeWhile_append)
  show ?thesis using assms s a by (simp add: path_Base_def)
qed

lemma WithAutoRenewalToken_unset: "leaves_OAuth_unset (WithAutoRenewalToken P token)"
  by (simp add: leaves_OAuth_unset_def WithAutoRenewalToken_def split: option.splits)

lemma WithTokenStore_unset: "leaves_OAuth_unset (WithTokenStore P store)"
  by (simp add: leaves_OAuth_unset_def WithTokenStore_def split: option.splits)

lemma WithTokenCallback_unset: "leaves_OAuth_unset (WithTokenCallback P callback)"
  by (simp add: leaves_OAuth_unset_def WithTokenCallback_def split: option.splits)

lemma applyOptions_append:
  "applyOptions (pre @ post) c =
     (case applyOptions pre c of
        (Some err, c') \<Rightarrow> (Some err, c')
      | (None, c') \<Rightarrow> applyOptions post c')"
  by (induction pre arbitrary: c) (auto split: prod.splits option.splits)

lemma applyOptions_unset:
  "list_all leaves_OAuth_unset pre \<Longrightarrow> OAuth c = None \<Longrightarrow> OAuth (snd (applyOptions pre c)) = None"
proof (induction pre arbitrary: c)
  case Nil
  then show ?case by simp
next
  case (Cons opt pre)
  from Cons.prems have step: "OAuth (snd (opt c)) = None"
    by (simp add: leaves_OAuth_unset_def)
  obtain r c' where oc: "opt c = (r, c')" by (cases "opt c")
  show ?case
  proof (cases r)
    case None
    with oc step Cons show ?thesis by simp
  next
    case (Some err)
    with oc step show ?thesis by simp
  qed
qed

lemma newClient_OAuth: "newClient E httpClient site = Inr c \<Longrightarrow> OAuth c = None"
  by (auto simp add: newClient_def Let_def split: if_splits sum.splits option.splits)

lemma WithAutoRenewalToken_fails:
  "OAuth c = None \<Longrightarrow>
   WithAutoRenewalToken P token c =
     (Some (Errorf (if token = None then ''token cannot be nil for auto-renewal''
                    else ''OAuth must be configured before enabling auto-renewal (use WithOAuth first)'')), c)"
  by (simp add: WithAutoRenewalToken_def split: option.splits)

lemma New_option_error:
  assumes "newClient E httpClient site = Inr client"
    and "applyOptions opts client = (None, client')"
    and "fst (opt client') = Some err"
  shows "New E httpClient site (opts @ opt # rest) = Inl err"
  using assms by (cases "opt client'") (simp add: New_def applyOptions_append)

lemma PreserveByJQL_success:
  assumes "PreserveByJQL i ctx jql = ((taskID, response, None), calls)"
  shows "\<exists>request res d.
           NewRequest (connector i) ctx ''POST'' (''rest/api/'' @ version i @ ''/issue/archive'') ''''
               (Value (MapPayload [(''jql'', Str jql)])) = Inr request
           \<and> Call (connector i) request None = (Some res, None, d)
           \<and> taskID = path_Base (Bytes res) \<and> response = Some res
           \<and> calls = [Built ''POST'' (''rest/api/'' @ version i @ ''/issue/archive''), Sent request]"
proof -
  let ?endpoint = "''rest/api/'' @ version i @ ''/issue/archive''"
  let ?body = "Value (MapPayload [(''jql'', Str jql)])"
  from assms have jql: "jql \<noteq> ''''"
    by (auto simp add: PreserveByJQL_def)
  obtain request where rq: "NewRequest (connector i) ctx ''POST'' ?endpoint '''' ?body = Inr request"
  proof (cases "NewRequest (connector i) ctx ''POST'' ?endpoint '''' ?body")
    case (Inl e)
    with assms jql show ?thesis by (simp add: PreserveByJQL_def)
  next
    case (Inr request)
    with that show ?thesis by blast
  qed
  obtain r e d where call: "Call (connector i) request None = (r, e, d)"
    by (cases "Call (connector i) request None")
  from assms jql rq call have e: "e = None"
    by (cases r; cases e) (simp_all add: PreserveByJQL_def Let_def)
  from assms jql rq call e obtain res where r: "r = Some res"
    by (cases r) (simp_all add: PreserveByJQL_def Let_def)
  from assms jql rq call e r show ?thesis
    by (auto simp add: PreserveByJQL_def Let_def)
qed


lemma example_NewRequest:
  "Client_NewRequest example_env (example_client h a) () method urlStr contentType body =
     Inr \<lparr>Method = (if method = '''' then ''GET'' else method),
          URL = ''https://x.atlassian.net/'' @ urlStr,
          Header = requestHeaders example_env a contentType body,
          Body = (case body of NilBody \<Rightarrow> '''' | Buffer b \<Rightarrow> b | Value v \<Rightarrow> ''{}'' @ [CHR 0x0A])\<rparr>"
  by (cases body) (simp_all add: Client_NewRequest_def example_env_def example_client_def encodeBody_def)

lemma example_Call:
  "Client_Call example_env (example_client (answer code url b) a) request structure =
     Client_processResponse example_env
       \<lparr>StatusCode = code, Request = request\<lparr>URL := url\<rparr>, Body_R = b\<rparr> structure"
  by (simp add: Client_Call_def example_env_def example_client_def answer_def)

lemma example_PreserveByJQL:
  "jql \<noteq> '''' \<Longrightarrow>
   PreserveByJQL (example_archival code url b) () jql =
     (let endpoint = ''rest/api/3/issue/archive'';
          request = \<lparr>Method = ''POST'', URL = ''https://x.atlassian.net/'' @ endpoint,
                     Header = requestHeaders example_env NewAuthenticationService ''''
                                (Value (MapPayload [(''jql'', Str jql)])),
                     Body = ''{}'' @ [CHR 0x0A]\<rparr>
      in case Client_processResponse example_env
                \<lparr>StatusCode = code, Request = request\<lparr>URL := url\<rparr>, Body_R = b\<rparr> None of
           (response, Some e, d) \<Rightarrow> (('''', response, Some e), [Built ''POST'' endpoint, Sent request])
         | (Some response, None, d) \<Rightarrow>
             ((path_Base (Bytes response), Some response, None), [Built ''POST'' endpoint, Sent request])
         | (None, None, d) \<Rightarrow>
             (('''', None, Some NilPointerPanic), [Built ''POST'' endpoint, Sent request]))"
  by (simp add: PreserveByJQL_def example_archival_def NewIssueArchivalService_def
        Client_Connector_def APIVersion_def example_NewRequest example_Call Let_def)

lemma path_Base_task_url: "path_Base task_url = ''10042''"
  by (simp add: task_url_def path_Base_def afterLastSlash_def stripTrailingSlashes_def)

section \<open>Asynchronous task handle\<close>

text \<open>
  C1, as the code has it. Take any call of \<^verbatim>\<open>PreserveByJQL\<close> on the version 3 client with
  a non-empty JQL whose request is built and whose HTTP exchange succeeds: the transport
  gives a response with a status in [200,300) and the body is read in full. Then the call
  returns no error, the populated envelope, and as task ID \<^verbatim>\<open>path.Base\<close> of the buffered
  body: a dot for an empty body, and the final path segment of the body text whenever
  the body ends in a slash followed by a non-empty segment. The resolved URL of the
  response plays no part. Conversely, a call that returns no error has had such an
  exchange.
\<close>

theorem PreserveByJQL_taskID_from_body:
  "(jql \<noteq> '''' \<longrightarrow>
    Client_NewRequest E c ctx ''POST'' (''rest/api/'' @ v @ ''/issue/archive'') ''''
        (Value (MapPayload [(''jql'', Str jql)])) = Inr request \<longrightarrow>
    Do E (HTTP c) request = Inr resp \<longrightarrow> Body_R resp = Inr bs \<longrightarrow>
    200 \<le> StatusCode resp \<longrightarrow> StatusCode resp < 300 \<longrightarrow>
      PreserveByJQL (NewIssueArchivalService (Client_Connector E c) v) ctx jql
        = ((path_Base bs, Some (envelope resp bs), None),
           [Built ''POST'' (''rest/api/'' @ v @ ''/issue/archive''), Sent request])
      \<and> (bs = '''' \<longrightarrow>
           fst (fst (PreserveByJQL (NewIssueArchivalService (Client_Connector E c) v) ctx jql)) = ''.'')
      \<and> (\<forall>pre seg. bs = pre @ ''/'' @ seg \<and> seg \<noteq> '''' \<and> CHR ''/'' \<notin> set seg \<longrightarrow>
           fst (fst (PreserveByJQL (NewIssueArchivalService (Client_Connector E c) v) ctx jql)) = seg))
   \<and> (PreserveByJQL (NewIssueArchivalService (Client_Connector E c) v) ctx jql
         = ((taskID, response, None), calls) \<longrightarrow>
       (\<exists>request' resp' bs'.
           calls = [Built ''POST'' (''rest/api/'' @ v @ ''/issue/archive''), Sent request']
           \<and> Do E (HTTP c) request' = Inr resp' \<and> Body_R resp' = Inr bs'
           \<and> 200 \<le> StatusCode resp' \<and> StatusCode resp' < 300
           \<and> response = Some (envelope resp' bs')
           \<and> taskID = path_Base bs'))"
proof (intro conjI impI)
  let ?i = "NewIssueArchivalService (Client_Connector E c) v"
  let ?endpoint = "''rest/api/'' @ v @ ''/issue/archive''"
  assume jql: "jql \<noteq> ''''"
    and rq: "Client_NewRequest E c ctx ''POST'' ?endpoint ''''
               (Value (MapPayload [(''jql'', Str jql)])) = Inr request"
    and d: "Do E (HTTP c) request = Inr resp" and b: "Body_R resp = Inr bs"
    and lo: "200 \<le> StatusCode resp" and hi: "StatusCode resp < 300"
  have call: "Client_Call E c request None = (Some (envelope resp bs), None, None)"
    using d b lo hi by (simp add: Client_Call_def processResponse_read)
  have bytes: "Bytes (envelope resp bs) = bs"
    by (simp add: envelope_def)
  show run: "PreserveByJQL ?i ctx jql
        = ((path_Base bs, Some (envelope resp bs), None), [Built ''POST'' ?endpoint, Sent request])"
    using jql rq call bytes
    by (simp add: PreserveByJQL_def NewIssueArchivalService_def Client_Connector_def)
  show "fst (fst (PreserveByJQL ?i ctx jql)) = ''.''" if "bs = ''''"
    using that by (simp add: run path_Base_def)
  show "\<forall>pre seg. bs = pre @ ''/'' @ seg \<and> seg \<noteq> '''' \<and> CHR ''/'' \<notin> set seg \<longrightarrow>
           fst (fst (PreserveByJQL ?i ctx jql)) = seg"
    unfolding run using path_Base_last_segment by simp
next
  let ?i = "NewIssueArchivalService (Client_Connector E c) v"
  assume a: "PreserveByJQL ?i ctx jql = ((taskID, response, None), calls)"
  have sel: "version ?i = v" "Call (connector ?i) = Client_Call E c"
    by (simp_all add: NewIssueArchivalService_def Client_Connector_def)
  note s = PreserveByJQL_success [OF a, unfolded sel]
  then obtain request' res d where
    call: "Client_Call E c request' None = (Some res, None, d)"
    and t: "taskID = path_Base (Bytes res)" and r: "response = Some res"
    and cs: "calls = [Built ''POST'' (''rest/api/'' @ v @ ''/issue/archive''), Sent request']"
    by blast
  from Call_without_error [OF call]
  obtain resp' bs' where d: "Do E (HTTP c) request' = Inr resp'" and b: "Body_R resp' = Inr bs'"
    and lo: "200 \<le> StatusCode resp'" and hi: "StatusCode resp' < 300"
    and e: "Some res = Some (envelope resp' bs')"
    by blast
  have bytes: "Bytes res = bs'" using e by (simp add: envelope_def)
  show "\<exists>request' resp' bs'.
           calls = [Built ''POST'' (''rest/api/'' @ v @ ''/issue/archive''), Sent request']
           \<and> Do E (HTTP c) request' = Inr resp' \<and> Body_R resp' = Inr bs'
           \<and> 200 \<le> StatusCode resp' \<and> StatusCode resp' < 300
           \<and> response = Some (envelope resp' bs')
           \<and> taskID = path_Base bs'"
  proof (intro exI conjI)
    show "calls = [Built ''POST'' (''rest/api/'' @ v @ ''/issue/archive''), Sent request']" by (fact cs)
    show "Do E (HTTP c) request' = Inr resp'" by (fact d)
    show "Body_R resp' = Inr bs'" by (fact b)
    show "200 \<le> StatusCode resp'" by (fact lo)
    show "StatusCode resp' < 300" by (fact hi)
    show "response = Some (envelope resp' bs')" using r e by simp
    show "taskID = path_Base bs'" using t bytes by simp
  qed
qed

text \<open>
  A 202 response whose body is the task URL, sent back for the archive endpoint, gives
  the task ID 10042; a 200 response with an empty body gives a dot.
\<close>

theorem PreserveByJQL_taskID_from_body_witness:
  "PreserveByJQL (example_archival 202 archive_url (Inr task_url)) () ''project = X''
     = ((''10042'', Some (envelope (jql_response 202 archive_url task_url) task_url), None),
        [Built ''POST'' ''rest/api/3/issue/archive'', Sent jql_request])
   \<and> PreserveByJQL (example_archival 200 archive_url (Inr '''')) () ''project = X''
     = ((''.'', Some (envelope (jql_response 200 archive_url '''') ''''), None),
        [Built ''POST'' ''rest/api/3/issue/archive'', Sent jql_request])"
proof -
  let ?c = "\<lambda>code bs. example_client (answer code archive_url (Inr bs)) NewAuthenticationService"
  have j: "''project = X'' \<noteq> ''''" by simp
  have rq: "Client_NewRequest example_env (?c code bs) () ''POST''
              (''rest/api/'' @ ''3'' @ ''/issue/archive'') ''''
              (Value (MapPayload [(''jql'', Str ''project = X'')])) = Inr jql_request" for code bs
    by (simp add: example_NewRequest jql_request_def)
  have d: "Do example_env (HTTP (?c code bs)) jql_request = Inr (jql_response code archive_url bs)"
    for code bs
    by (simp add: example_env_def example_client_def answer_def jql_response_def)
  have b: "Body_R (jql_response code archive_url bs) = Inr bs" for code bs
    by (simp add: jql_response_def)
  have s202: "200 \<le> StatusCode (jql_response 202 archive_url task_url)"
      "StatusCode (jql_response 202 archive_url task_url) < 300"
    and s200: "200 \<le> StatusCode (jql_response 200 archive_url '''')"
      "StatusCode (jql_response 200 archive_url '''') < 300"
    by (simp_all add: jql_response_def)
  have seg: "task_url = ''https://x.atlassian.net/rest/api/3/task'' @ ''/'' @ ''10042''
               \<and> ''10042'' \<noteq> '''' \<and> CHR ''/'' \<notin> set ''10042''"
    by (simp add: task_url_def)
  note t1 = PreserveByJQL_taskID_from_body [of "''project = X''" example_env "?c 202 task_url" "()"
      "''3''" jql_request "jql_response 202 archive_url task_url" task_url,
      THEN conjunct1, rule_format, OF j rq d b s202]
  note t2 = PreserveByJQL_taskID_from_body [of "''project = X''" example_env "?c 200 ''''" "()"
      "''3''" jql_request "jql_response 200 archive_url ''''" "''''",
      THEN conjunct1, rule_format, OF j rq d b s200]
  have id1: "fst (fst (PreserveByJQL (example_archival 202 archive_url (Inr task_url)) ()
                ''project = X'')) = ''10042''"
    using t1 [THEN conjunct2, THEN conjunct2, rule_format, OF seg]
    by (simp add: example_archival_def APIVersion_def)
  have id2: "fst (fst (PreserveByJQL (example_archival 200 archive_url (Inr '''')) ()
                ''project = X'')) = ''.''"
    using t2 [THEN conjunct2, THEN conjunct1, rule_format, OF refl]
    by (simp add: example_archival_def APIVersion_def)
  have r1: "PreserveByJQL (example_archival 202 archive_url (Inr task_url)) () ''project = X''
     = ((path_Base task_url, Some (envelope (jql_response 202 archive_url task_url) task_url), None),
        [Built ''POST'' ''rest/api/3/issue/archive'', Sent jql_request])"
    using t1 [THEN conjunct1] by (simp add: example_archival_def APIVersion_def)
  have r2: "PreserveByJQL (example_archival 200 archive_url (Inr '''')) () ''project = X''
     = ((path_Base '''', Some (envelope (jql_response 200 archive_url '''') ''''), None),
        [Built ''POST'' ''rest/api/3/issue/archive'', Sent jql_request])"
    using t2 [THEN conjunct1] by (simp add: example_archival_def APIVersion_def)
  from id1 r1 have p1: "path_Base task_url = ''10042''" by simp
  from id2 r2 have p2: "path_Base '''' = ''.''" by simp
  note conv = PreserveByJQL_taskID_from_body [THEN conjunct2, rule_format, OF t1 [THEN conjunct1]]
  from conv have "\<exists>request' resp' bs'.
      Do example_env (HTTP (?c 202 task_url)) request' = Inr resp' \<and> Body_R resp' = Inr bs'
      \<and> path_Base task_url = path_Base bs'"
    by blast
  then show ?thesis unfolding r1 r2 p1 p2 by simp
qed

text \<open>
  C1 as stated fails: a 204 response with an empty body whose resolved URL ends in
  \<^verbatim>\<open>/task/10042\<close> gives the task ID \<^verbatim>\<open>.\<close> (\<^verbatim>\<open>path.Base\<close> of the empty body), not 10042.
\<close>

theorem PreserveByJQL_taskID_not_from_URL:
  "fst (fst (PreserveByJQL (example_archival 204 task_url (Inr '''')) () ''project = X'')) = ''.''
   \<and> snd (snd (fst (PreserveByJQL (example_archival 204 task_url (Inr '''')) () ''project = X''))) = None
   \<and> map_option Endpoint
        (fst (snd (fst (PreserveByJQL (example_archival 204 task_url (Inr '''')) () ''project = X''))))
      = Some ''https://x.atlassian.net/rest/api/3/task/10042''
   \<and> fst (fst (PreserveByJQL (example_archival 204 task_url (Inr '''')) () ''project = X'')) \<noteq> ''10042''"
  by (simp add: example_PreserveByJQL processResponse_read envelope_def path_Base_def task_url_def
        Let_def)

lemma example_Do:
  "Do example_env (HTTP (example_client (answer code archive_url b) a)) example_request
     = Inr (example_response code b)"
  by (simp add: example_env_def example_client_def answer_def example_response_def
        example_request_def archive_url_def)

section \<open>Response classification\<close>

text \<open>
  C2, as the code has it. For every response that \<^verbatim>\<open>Call\<close> receives and whose body is
  read in full: a status in [200,300) is a success (the envelope is returned, with no
  error when there is no destination, and never with an error of the status taxonomy);
  any other status gives the populated envelope (status code, endpoint, method, buffered
  body), the destination untouched, and the error the taxonomy fixes for the status:
  404 not found, 401 unauthorized, 500 internal, 400 bad request, anything else the
  generic invalid status. For every response whose body cannot be read, \<^verbatim>\<open>Call\<close>
  returns the read error, whatever the status, with the destination untouched and an
  envelope that holds status code, endpoint and method but no body bytes.
\<close>

theorem Call_status_taxonomy:
  assumes "Do E (HTTP c) request = Inr response"
  shows "(Body_R response = Inr bs \<longrightarrow>
           (if 200 \<le> StatusCode response \<and> StatusCode response < 300
            then fst (Client_Call E c request structure) = Some (envelope response bs)
                 \<and> fst (snd (Client_Call E c request None)) = None
                 \<and> fst (snd (Client_Call E c request structure))
                     \<notin> {Some ErrNotFound, Some ErrUnauthorized, Some ErrInternal,
                         Some ErrBadRequest, Some ErrInvalidStatusCode}
            else Client_Call E c request structure =
                   (Some (envelope response bs), Some (status_taxonomy (StatusCode response)),
                    structure)))
         \<and> (Body_R response = Inl m \<longrightarrow>
              Client_Call E c request structure =
                (Some (envelope response ''''), Some (IOError m), structure))"
proof (intro conjI impI)
  assume "Body_R response = Inr bs"
  with assms
  show "if 200 \<le> StatusCode response \<and> StatusCode response < 300
            then fst (Client_Call E c request structure) = Some (envelope response bs)
                 \<and> fst (snd (Client_Call E c request None)) = None
                 \<and> fst (snd (Client_Call E c request structure))
                     \<notin> {Some ErrNotFound, Some ErrUnauthorized, Some ErrInternal,
                         Some ErrBadRequest, Some ErrInvalidStatusCode}
            else Client_Call E c request structure =
                   (Some (envelope response bs), Some (status_taxonomy (StatusCode response)),
                    structure)"
    by (auto simp add: Client_Call_def processResponse_read split: option.splits prod.splits)
next
  assume "Body_R response = Inl m"
  with assms
  show "Client_Call E c request structure =
          (Some (envelope response ''''), Some (IOError m), structure)"
    by (simp add: Client_Call_def processResponse_unread)
qed

text \<open>
  A 404 answer with a body gives the not-found error and the envelope with that body;
  a 500 answer whose body cannot be read gives the read error and an envelope without
  body bytes.
\<close>

theorem Call_status_taxonomy_witness:
  "Client_Call example_env (example_client (answer 404 archive_url (Inr ''Issue does not exist''))
       NewAuthenticationService) example_request (None :: IssueArchivalSyncResponseScheme option)
     = (Some \<lparr>Response = example_response 404 (Inr ''Issue does not exist''), Code = 404,
              Endpoint = archive_url, Method_S = ''PUT'', Bytes = ''Issue does not exist''\<rparr>,
        Some ErrNotFound, None)
   \<and> Client_Call example_env (example_client (answer 500 archive_url (Inl ''connection reset''))
       NewAuthenticationService) example_request (None :: IssueArchivalSyncResponseScheme option)
     = (Some \<lparr>Response = example_response 500 (Inl ''connection reset''), Code = 500,
              Endpoint = archive_url, Method_S = ''PUT'', Bytes = ''''\<rparr>,
        Some (IOError ''connection reset''), None)"
proof -
  have rd: "Body_R (example_response 404 (Inr ''Issue does not exist'')) = Inr ''Issue does not exist''"
    and ur: "Body_R (example_response 500 (Inl ''connection reset'')) = Inl ''connection reset''"
    by (simp_all add: example_response_def)
  show ?thesis
    using Call_status_taxonomy [OF example_Do, THEN conjunct1, rule_format, OF rd,
            of NewAuthenticationService None]
          Call_status_taxonomy [OF example_Do, THEN conjunct2, rule_format, OF ur,
            of NewAuthenticationService None]
    by (simp add: envelope_def status_taxonomy_def example_response_def example_request_def
          archive_url_def)
qed

text \<open>
  C2 as stated fails: when reading the body of a 404 response fails, \<^verbatim>\<open>Call\<close> returns the
  read error, not the not-found error, and the envelope holds no body bytes.
\<close>

theorem Call_status_read_failure:
  "Client_Call example_env (example_client (answer 404 archive_url (Inl ''unexpected EOF''))
       NewAuthenticationService) example_request (None :: IssueArchivalSyncResponseScheme option)
     = (Some \<lparr>Response = example_response 404 (Inl ''unexpected EOF''), Code = 404,
              Endpoint = archive_url, Method_S = ''PUT'', Bytes = ''''\<rparr>,
        Some (IOError ''unexpected EOF''), None)
   \<and> IOError ''unexpected EOF'' \<noteq> status_taxonomy 404"
  unfolding Client_Call_def example_Do
  by (simp add: Client_processResponse_def status_taxonomy_def example_response_def
        example_request_def archive_url_def)

section \<open>Decoding into the destination\<close>

text \<open>
  C9, as the code has it. For every call with a destination whose response has a status
  in [200,300): when the body is read in full, the buffered bytes are deserialized into
  the destination, and when that fails, \<^verbatim>\<open>Call\<close> returns the decode error together with
  the populated envelope; when the body cannot be read, nothing is deserialized:
  \<^verbatim>\<open>Call\<close> returns the read error, the envelope without body bytes, and the destination
  as it was. A decode error is none of the status errors, and \<^verbatim>\<open>Call\<close> returns one only
  for a response with a status in [200,300).
\<close>

theorem Call_decodes_into_destination:
  assumes "Do E (HTTP c) request = Inr response"
    and "200 \<le> StatusCode response" and "StatusCode response < 300"
  shows "(Body_R response = Inr bs \<longrightarrow>
           Client_Call E c request (Some dst) =
             (case json_Unmarshal E bs dst of
                (None, dst') \<Rightarrow> (Some (envelope response bs), None, Some dst')
              | (Some m, dst') \<Rightarrow> (Some (envelope response bs), Some (JSONError m), Some dst')))
         \<and> (Body_R response = Inl r \<longrightarrow>
              Client_Call E c request (Some dst) =
                (Some (envelope response ''''), Some (IOError r), Some dst))
         \<and> JSONError m \<noteq> status_taxonomy code
         \<and> (fst (snd (Client_Call E c request' structure)) = Some (JSONError m)
              \<longrightarrow> (\<exists>response'. Do E (HTTP c) request' = Inr response'
                     \<and> 200 \<le> StatusCode response' \<and> StatusCode response' < 300))"
proof (intro conjI)
  show "Body_R response = Inr bs \<longrightarrow>
         Client_Call E c request (Some dst) =
           (case json_Unmarshal E bs dst of
              (None, dst') \<Rightarrow> (Some (envelope response bs), None, Some dst')
            | (Some m, dst') \<Rightarrow> (Some (envelope response bs), Some (JSONError m), Some dst'))"
    using assms
    by (simp add: Client_Call_def processResponse_read split: option.splits prod.splits)
  show "Body_R response = Inl r \<longrightarrow>
          Client_Call E c request (Some dst) =
            (Some (envelope response ''''), Some (IOError r), Some dst)"
    using assms(1) by (simp add: Client_Call_def processResponse_unread)
  show "JSONError m \<noteq> status_taxonomy code"
    by (simp add: status_taxonomy_def)
  show "fst (snd (Client_Call E c request' structure)) = Some (JSONError m)
              \<longrightarrow> (\<exists>response'. Do E (HTTP c) request' = Inr response'
                     \<and> 200 \<le> StatusCode response' \<and> StatusCode response' < 300)"
    using Call_JSONError by blast
qed

text \<open>
  A 200 answer whose body is an empty object is decoded into the destination; one whose
  body is no JSON gives the decode error and the envelope; a 201 answer whose body
  cannot be read gives the read error, and the destination stays as it was.
\<close>

theorem Call_decodes_into_destination_witness:
  "Client_Call example_env (example_client (answer 200 archive_url (Inr ''{}''))
       NewAuthenticationService) example_request (Some new_IssueArchivalSyncResponseScheme)
     = (Some (envelope (example_response 200 (Inr ''{}'')) ''{}''), None,
        Some new_IssueArchivalSyncResponseScheme)
   \<and> Client_Call example_env (example_client (answer 200 archive_url (Inr ''<html>''))
       NewAuthenticationService) example_request (Some new_IssueArchivalSyncResponseScheme)
     = (Some (envelope (example_response 200 (Inr ''<html>'')) ''<html>''),
        Some (JSONError ''invalid character''), Some new_IssueArchivalSyncResponseScheme)
   \<and> Client_Call example_env (example_client (answer 201 archive_url (Inl ''connection reset''))
       NewAuthenticationService) example_request (Some new_IssueArchivalSyncResponseScheme)
     = (Some (envelope (example_response 201 (Inl ''connection reset'')) ''''),
        Some (IOError ''connection reset''), Some new_IssueArchivalSyncResponseScheme)"
proof -
  have a: "Body_R (example_response 200 (Inr ''{}'')) = Inr ''{}''"
    and b: "Body_R (example_response 200 (Inr ''<html>'')) = Inr ''<html>''"
    and u: "Body_R (example_response 201 (Inl ''connection reset'')) = Inl ''connection reset''"
    and lo: "\<And>x. 200 \<le> StatusCode (example_response 200 x)"
    and hi: "\<And>x. StatusCode (example_response 200 x) < 300"
    and lo': "\<And>x. 200 \<le> StatusCode (example_response 201 x)"
    and hi': "\<And>x. StatusCode (example_response 201 x) < 300"
    by (simp_all add: example_response_def)
  have j: "json_Unmarshal example_env ''{}'' new_IssueArchivalSyncResponseScheme
             = (None, new_IssueArchivalSyncResponseScheme)"
      "json_Unmarshal example_env ''<html>'' new_IssueArchivalSyncResponseScheme
             = (Some ''invalid character'', new_IssueArchivalSyncResponseScheme)"
    by (simp_all add: example_env_def)
  note t200 = Call_decodes_into_destination [OF example_Do lo hi]
  note t201 = Call_decodes_into_destination [OF example_Do lo' hi']
  have one: "Client_Call example_env (example_client (answer 200 archive_url (Inr ''{}''))
       NewAuthenticationService) example_request (Some new_IssueArchivalSyncResponseScheme)
     = (Some (envelope (example_response 200 (Inr ''{}'')) ''{}''), None,
        Some new_IssueArchivalSyncResponseScheme)"
    using t200 [THEN conjunct1, rule_format, OF a,
                of NewAuthenticationService new_IssueArchivalSyncResponseScheme]
    by (simp add: j)
  have two: "Client_Call example_env (example_client (answer 200 archive_url (Inr ''<html>''))
       NewAuthenticationService) example_request (Some new_IssueArchivalSyncResponseScheme)
     = (Some (envelope (example_response 200 (Inr ''<html>'')) ''<html>''),
        Some (JSONError ''invalid character''), Some new_IssueArchivalSyncResponseScheme)"
    using t200 [THEN conjunct1, rule_format, OF b,
                of NewAuthenticationService new_IssueArchivalSyncResponseScheme]
    by (simp add: j)
  have three: "Client_Call example_env (example_client (answer 201 archive_url (Inl ''connection reset''))
       NewAuthenticationService) example_request (Some new_IssueArchivalSyncResponseScheme)
     = (Some (envelope (example_response 201 (Inl ''connection reset'')) ''''),
        Some (IOError ''connection reset''), Some new_IssueArchivalSyncResponseScheme)"
    using t201 [THEN conjunct2, THEN conjunct1, rule_format, OF u] .
  have "fst (snd (Client_Call example_env
                    (example_client (answer 200 archive_url (Inr ''<html>'')) NewAuthenticationService)
                    example_request (Some new_IssueArchivalSyncResponseScheme)))
          = Some (JSONError ''invalid character'')"
    using two by simp
  from t200 [THEN conjunct2, THEN conjunct2, THEN conjunct2, rule_format, OF this]
  have "\<exists>response'. Do example_env
            (HTTP (example_client (answer 200 archive_url (Inr ''<html>'')) NewAuthenticationService))
            example_request = Inr response'
          \<and> 200 \<le> StatusCode response' \<and> StatusCode response' < 300" .
  with one two three show ?thesis by blast
qed

text \<open>
  C9 as stated fails: when reading the body of a 200 response fails, nothing is
  deserialized; \<^verbatim>\<open>Call\<close> returns the read error, which is not what decoding the (empty)
  buffer gives, and leaves the destination as it was.
\<close>

theorem Call_decode_read_failure:
  "Client_Call example_env (example_client (answer 200 archive_url (Inl ''unexpected EOF''))
       NewAuthenticationService) example_request (Some new_IssueArchivalSyncResponseScheme)
     = (Some (envelope (example_response 200 (Inl ''unexpected EOF'')) ''''),
        Some (IOError ''unexpected EOF''), Some new_IssueArchivalSyncResponseScheme)
   \<and> json_Unmarshal example_env '''' new_IssueArchivalSyncResponseScheme
     = (Some ''invalid character'', new_IssueArchivalSyncResponseScheme)"
  unfolding Client_Call_def example_Do
  by (simp add: Client_processResponse_def envelope_def example_response_def example_env_def)

lemma example_newClient:
  "newClient example_env (Some offline) ''https://x.atlassian.net''
     = Inr \<lparr>HTTP = offline, Auth = NewAuthenticationService, OAuth = None,
            Site = ''https://x.atlassian.net/''\<rparr>"
  by (simp add: newClient_def example_env_def HasSuffix_def)

section \<open>Client construction\<close>

text \<open>
  C3. Take any option sequence that applies the auto-renewal option after options none
  of which installs OAuth. Then \<^verbatim>\<open>New\<close> returns no client but an error: the error of
  the construction before the options, or of the first earlier option that fails, or
  else the configuration error of the auto-renewal option itself (a nil token, or OAuth
  not configured). And whenever an option reports an error at its turn, whatever the
  sequence, \<^verbatim>\<open>New\<close> returns that error and no client.
\<close>

theorem New_AutoRenewal_without_OAuth:
  fixes pre :: "('h, 'o, 'u) ClientOption list"
  assumes "list_all leaves_OAuth_unset pre"
  shows "New E httpClient site (pre @ WithAutoRenewalToken P token # post) =
           (case newClient E httpClient site of
              Inl err \<Rightarrow> Inl err
            | Inr client \<Rightarrow>
                (case applyOptions pre client of
                   (Some err, client') \<Rightarrow> Inl err
                 | (None, client') \<Rightarrow>
                     Inl (Errorf (if token = None then ''token cannot be nil for auto-renewal''
                                  else ''OAuth must be configured before enabling auto-renewal (use WithOAuth first)''))))
         \<and> isl (New E httpClient site (pre @ WithAutoRenewalToken P token # post))
         \<and> (newClient E httpClient site = Inr client0 \<longrightarrow> applyOptions opts client0 = (None, client1)
              \<longrightarrow> fst (opt client1) = Some err
              \<longrightarrow> New E httpClient site (opts @ opt # rest) = Inl err)"
proof -
  let ?n = "New E httpClient site (pre @ WithAutoRenewalToken P token # post)"
  let ?e = "Errorf (if token = None then ''token cannot be nil for auto-renewal''
                    else ''OAuth must be configured before enabling auto-renewal (use WithOAuth first)'')"
  have a: "?n = (case newClient E httpClient site of
              Inl err \<Rightarrow> Inl err
            | Inr client \<Rightarrow>
                (case applyOptions pre client of
                   (Some err, client') \<Rightarrow> Inl err
                 | (None, client') \<Rightarrow> Inl ?e))"
  proof (cases "newClient E httpClient site :: error + ('h, 'o, 'u) Client")
    case (Inl err)
    then show ?thesis by (simp add: New_def)
  next
    case (Inr client)
    then have u: "OAuth (snd (applyOptions pre client)) = None"
      using assms applyOptions_unset newClient_OAuth by blast
    obtain r client' where ap: "applyOptions pre client = (r, client')"
      by (cases "applyOptions pre client")
    show ?thesis
    proof (cases r)
      case None
      with ap u have "WithAutoRenewalToken P token client' = (Some ?e, client')"
        using WithAutoRenewalToken_fails [of client' P token] by simp
      with Inr ap None show ?thesis by (simp add: New_def applyOptions_append)
    next
      case (Some err)
      with Inr ap show ?thesis by (simp add: New_def applyOptions_append)
    qed
  qed
  have b: "isl ?n"
    unfolding a by (simp split: sum.splits prod.splits option.splits)
  show ?thesis using a b New_option_error [of E httpClient site client0 opts client1 opt err rest]
    by blast
qed

text \<open>
  A token store, then auto-renewal, then OAuth: construction fails with the ordering
  error. And auto-renewal with a nil token after OAuth: construction fails with that
  option's error, although the OAuth option before it had worked on the client.
\<close>

theorem New_AutoRenewal_without_OAuth_witness:
  "New example_env (Some offline) ''https://x.atlassian.net''
     ([WithTokenStore example_oauth2 (Some ''store'')]
      @ WithAutoRenewalToken example_oauth2 (Some example_token)
      # [WithOAuth example_oauth2 (Some ''client-id'')])
     = Inl (Errorf ''OAuth must be configured before enabling auto-renewal (use WithOAuth first)'')
   \<and> New example_env (Some offline) ''https://x.atlassian.net''
     ([WithOAuth example_oauth2 (Some ''client-id'')]
      @ WithAutoRenewalToken example_oauth2 None # [])
     = Inl (Errorf ''token cannot be nil for auto-renewal'')"
proof -
  let ?c0 = "\<lparr>HTTP = offline, Auth = NewAuthenticationService, OAuth = None,
            Site = ''https://x.atlassian.net/''\<rparr> :: (transport, nat, string) Client"
  have h: "list_all leaves_OAuth_unset
             [WithTokenStore example_oauth2 (Some ''store'') :: (transport, nat, string) ClientOption]"
    by (simp add: WithTokenStore_unset)
  have p: "applyOptions [WithTokenStore example_oauth2 (Some ''store'')] ?c0 = (None, ?c0)"
    by (simp add: WithTokenStore_def example_oauth2_def)
  have q: "applyOptions [WithOAuth example_oauth2 (Some ''client-id'')] ?c0
             = (None, ?c0\<lparr>OAuth := Some 1\<rparr>)"
    by (simp add: WithOAuth_def example_oauth2_def)
  have f: "fst (WithAutoRenewalToken example_oauth2 None (?c0\<lparr>OAuth := Some 1\<rparr>))
             = Some (Errorf ''token cannot be nil for auto-renewal'')"
    by (simp add: WithAutoRenewalToken_def)
  note t = New_AutoRenewal_without_OAuth [OF h, of example_env "Some offline"
            "''https://x.atlassian.net''" example_oauth2 "Some example_token"
            "[WithOAuth example_oauth2 (Some ''client-id'')]"
            ?c0 "[WithOAuth example_oauth2 (Some ''client-id'')]" "?c0\<lparr>OAuth := Some 1\<rparr>"
            "WithAutoRenewalToken example_oauth2 None"
            "Errorf ''token cannot be nil for auto-renewal''" "[]"]
  have first: "New example_env (Some offline) ''https://x.atlassian.net''
     ([WithTokenStore example_oauth2 (Some ''store'')]
      @ WithAutoRenewalToken example_oauth2 (Some example_token)
      # [WithOAuth example_oauth2 (Some ''client-id'')])
     = Inl (Errorf ''OAuth must be configured before enabling auto-renewal (use WithOAuth first)'')"
    using t [THEN conjunct1] unfolding example_newClient sum.case p by simp
  have second: "New example_env (Some offline) ''https://x.atlassian.net''
     ([WithOAuth example_oauth2 (Some ''client-id'')]
      @ WithAutoRenewalToken example_oauth2 None # [])
     = Inl (Errorf ''token cannot be nil for auto-renewal'')"
    using t [THEN conjunct2, THEN conjunct2] example_newClient q f by blast
  from first second show ?thesis by blast
qed

text \<open>
  C4. Applied to any client, the composite option leaves the same error and the same
  client as the loop of \<^verbatim>\<open>New\<close> run on the OAuth option followed by the auto-renewal
  option; and in any option sequence the composite can be replaced by these two, for
  the loop and for \<^verbatim>\<open>New\<close>, without changing the result.
\<close>

theorem composite_option_is_sequence:
  "WithOAuthWithAutoRenewal P config token c
     = applyOptions [WithOAuth P config, WithAutoRenewalToken P token] c
   \<and> applyOptions (pre @ WithOAuthWithAutoRenewal P config token # post) c
     = applyOptions (pre @ WithOAuth P config # WithAutoRenewalToken P token # post) c
   \<and> New E httpClient site (pre @ WithOAuthWithAutoRenewal P config token # post)
     = New E httpClient site (pre @ WithOAuth P config # WithAutoRenewalToken P token # post)"
proof -
  have one: "\<And>c. WithOAuthWithAutoRenewal P config token c
     = applyOptions [WithOAuth P config, WithAutoRenewalToken P token] c"
    by (simp add: WithOAuthWithAutoRenewal_def split: prod.splits option.splits)
  have two: "\<And>c. applyOptions (WithOAuthWithAutoRenewal P config token # post) c
     = applyOptions (WithOAuth P config # WithAutoRenewalToken P token # post) c"
    by (simp add: WithOAuthWithAutoRenewal_def split: prod.splits option.splits)
  have three: "\<And>c. applyOptions (pre @ WithOAuthWithAutoRenewal P config token # post) c
     = applyOptions (pre @ WithOAuth P config # WithAutoRenewalToken P token # post) c"
    unfolding applyOptions_append [of pre] two ..
  show ?thesis unfolding New_def three by (simp add: one)
qed

text \<open>
  The composite with a configuration and a token yields the client with OAuth installed
  and the token as bearer; with a nil token it fails as the auto-renewal option does,
  leaving OAuth installed on the client it worked on.
\<close>

theorem composite_option_is_sequence_witness:
  "New example_env (Some offline) ''https://x.atlassian.net''
     [WithOAuthWithAutoRenewal example_oauth2 (Some ''client-id'') (Some example_token)]
     = Inr \<lparr>HTTP = offline, Auth = SetBearerToken ''access-1'' NewAuthenticationService,
            OAuth = Some 1, Site = ''https://x.atlassian.net/''\<rparr>
   \<and> WithOAuthWithAutoRenewal example_oauth2 (Some ''client-id'') None
       (example_client offline NewAuthenticationService)
     = (Some (Errorf ''token cannot be nil for auto-renewal''),
        (example_client offline NewAuthenticationService)\<lparr>OAuth := Some 1\<rparr>)"
  using composite_option_is_sequence [of example_oauth2 "Some ''client-id''" "Some example_token"
          "example_client offline NewAuthenticationService" "[]" "[]" example_env "Some offline"
          "''https://x.atlassian.net''"]
        composite_option_is_sequence [of example_oauth2 "Some ''client-id''" None
          "example_client offline NewAuthenticationService" "[]" "[]" example_env "Some offline"
          "''https://x.atlassian.net''"]
  by (simp add: New_def example_newClient WithOAuth_def WithAutoRenewalToken_def
        example_oauth2_def example_token_def example_client_def)

section \<open>Request headers and payload\<close>

text \<open>
  C5, as the code has it. Every request built by \<^verbatim>\<open>NewRequest\<close> carries at most one
  Authorization value: the basic one when basic-auth is set (also when a bearer token
  is set too), the bearer one exactly when the bearer token is non-empty and basic-auth
  is not set, and none when neither is set. The User-Agent header holds the user agent
  whenever one is set.
\<close>

theorem NewRequest_authorization:
  assumes "Client_NewRequest E c ctx method urlStr contentType body = Inr req"
  shows "Header req ''Authorization'' =
           (if HasBasicAuth (Auth c)
            then Some [''Basic '' @ basicAuth E (fst (GetBasicAuth (Auth c))) (snd (GetBasicAuth (Auth c)))]
            else if GetBearerToken (Auth c) \<noteq> ''''
            then Some [''Bearer '' @ GetBearerToken (Auth c)]
            else None)
         \<and> Header req ''User-Agent'' =
           (if HasUserAgent (Auth c) then Some [GetUserAgent (Auth c)] else None)"
proof -
  from NewRequest_built [OF assms]
  have "Header req = requestHeaders E (Auth c) contentType body" by auto
  then show ?thesis
    by (simp add: requestHeaders_Authorization requestHeaders_UserAgent)
qed

text \<open>With basic-auth and a bearer token both set, only the basic header is sent.\<close>

theorem NewRequest_authorization_witness:
  "\<not> isl (Client_NewRequest example_env (example_client offline both_credentials) ()
            ''GET'' ''rest/api/3/myself'' '''' (NilBody :: archive_body body))
   \<and> map (Header (projr (Client_NewRequest example_env (example_client offline both_credentials) ()
                          ''GET'' ''rest/api/3/myself'' '''' (NilBody :: archive_body body))))
       [''Authorization'', ''User-Agent'']
     = [Some [''Basic me@x.io:secret''], Some [''agent/1'']]"
proof -
  note t = NewRequest_authorization [of example_env
            "example_client offline both_credentials" "()"
            "''GET''" "''rest/api/3/myself''"
            "''''" "NilBody :: archive_body body",
            OF example_NewRequest]
  have a: "Auth (example_client offline both_credentials) = both_credentials"
    by (simp add: example_client_def)
  have v: "basicAuth example_env ''me@x.io'' ''secret'' = ''me@x.io:secret''"
    by (simp add: example_env_def)
  show ?thesis
    using t [unfolded a] by (simp add: example_NewRequest v both_credentials_def)
qed

text \<open>
  C5 as stated fails: for a client without credentials the request is built with no
  Authorization header at all, so not exactly one scheme is applied.
\<close>

theorem NewRequest_no_authorization:
  "\<not> isl (Client_NewRequest example_env (example_client offline NewAuthenticationService) ()
            ''GET'' ''rest/api/3/myself'' '''' (NilBody :: archive_body body))
   \<and> Header (projr (Client_NewRequest example_env (example_client offline NewAuthenticationService) ()
                     ''GET'' ''rest/api/3/myself'' '''' (NilBody :: archive_body body)))
        ''Authorization'' = None"
  by (simp add: example_NewRequest requestHeaders_Authorization NewAuthenticationService_def)

text \<open>
  C6. Every request built by \<^verbatim>\<open>NewRequest\<close> has the Accept header set to JSON. Its
  Content-Type is the \<^verbatim>\<open>contentType\<close> argument when that is non-empty, whatever the
  body; otherwise it is JSON if the body is non-nil and absent if it is nil. The
  no-check upload header is set exactly when \<^verbatim>\<open>contentType\<close> is non-empty.
\<close>

theorem NewRequest_content_headers:
  assumes "Client_NewRequest E c ctx method urlStr contentType body = Inr req"
  shows "Header req ''Accept'' = Some [''application/json'']
         \<and> Header req ''Content-Type'' =
             (if contentType \<noteq> '''' then Some [contentType]
              else if body \<noteq> NilBody then Some [''application/json''] else None)
         \<and> Header req ''X-Atlassian-Token'' =
             (if contentType \<noteq> '''' then Some [''no-check''] else None)"
proof -
  from NewRequest_built [OF assms]
  have "Header req = requestHeaders E (Auth c) contentType body" by auto
  then show ?thesis
    by (simp add: requestHeaders_Accept requestHeaders_ContentType requestHeaders_Token)
qed

text \<open>
  An upload with an explicit content type and a buffer; a JSON body without content
  type; and no body at all.
\<close>

theorem NewRequest_content_headers_witness:
  "map (Header (projr (Client_NewRequest example_env (example_client offline NewAuthenticationService) ()
          ''POST'' ''rest/api/3/issue/1/attachments'' ''multipart/form-data''
          (Buffer ''--b--'' :: archive_body body))))
       [''Accept'', ''Content-Type'', ''X-Atlassian-Token'']
     = [Some [''application/json''], Some [''multipart/form-data''], Some [''no-check'']]
   \<and> map (Header (projr (Client_NewRequest example_env (example_client offline NewAuthenticationService) ()
          ''POST'' ''rest/api/3/issue/archive'' ''''
          (Value (MapPayload [(''jql'', Str ''project = X'')])))))
       [''Accept'', ''Content-Type'', ''X-Atlassian-Token'']
     = [Some [''application/json''], Some [''application/json''], None]
   \<and> map (Header (projr (Client_NewRequest example_env (example_client offline NewAuthenticationService) ()
          ''GET'' ''rest/api/3/myself'' '''' (NilBody :: archive_body body))))
       [''Accept'', ''Content-Type'', ''X-Atlassian-Token'']
     = [Some [''application/json''], None, None]"
  using NewRequest_content_headers [of example_env
            "example_client offline NewAuthenticationService" "()"
            "''POST''" "''rest/api/3/issue/1/attachments''"
            "''multipart/form-data''" "Buffer ''--b--''",
            OF example_NewRequest]
        NewRequest_content_headers [of example_env
            "example_client offline NewAuthenticationService" "()"
            "''POST''" "''rest/api/3/issue/archive''"
            "''''" "Value (MapPayload [(''jql'', Str ''project = X'')])",
            OF example_NewRequest]
        NewRequest_content_headers [of example_env
            "example_client offline NewAuthenticationService" "()"
            "''GET''" "''rest/api/3/myself''"
            "''''" "NilBody",
            OF example_NewRequest]
  by (simp add: example_NewRequest)

text \<open>
  C7. In every request built by \<^verbatim>\<open>NewRequest\<close> from a non-nil body, the payload is the
  JSON serialization of the body, except that for a byte buffer it is the buffer's
  bytes, unchanged. (For a nil body the payload is empty.)
\<close>

theorem NewRequest_payload:
  assumes "Client_NewRequest E c ctx method urlStr contentType body = Inr req"
  shows "(case body of
            NilBody \<Rightarrow> Body req = ''''
          | Buffer attachBuffer \<Rightarrow> Body req = attachBuffer
          | Value v \<Rightarrow> json_Encode E v = Inr (Body req))"
proof -
  from NewRequest_built [OF assms]
  obtain encoded where e: "encodeBody E body = Inr encoded"
    and b: "Body req = (case body of Buffer b \<Rightarrow> b | _ \<Rightarrow> encoded)"
    by auto
  show ?thesis
  proof (cases body)
    case NilBody
    with e b show ?thesis by (simp add: encodeBody_def)
  next
    case (Buffer attachBuffer)
    with b show ?thesis by simp
  next
    case (Value v)
    with e b show ?thesis by (simp add: encodeBody_def split: sum.splits)
  qed
qed

text \<open>A multipart buffer goes through untouched; a map is sent as its encoding.\<close>

theorem NewRequest_payload_witness:
  "map_sum id Body (Client_NewRequest example_env (example_client offline NewAuthenticationService) ()
       ''POST'' ''rest/api/3/issue/1/attachments'' ''multipart/form-data''
       (Buffer ''--b content --b--'' :: archive_body body))
     = Inr ''--b content --b--''
   \<and> map_sum id Body (Client_NewRequest example_env (example_client offline NewAuthenticationService) ()
       ''POST'' ''rest/api/3/issue/archive'' '''' (Value (MapPayload [(''jql'', Str ''project = X'')])))
     = Inr (''{}'' @ [CHR 0x0A])
   \<and> json_Encode example_env (MapPayload [(''jql'', Str ''project = X'')])
     = Inr (''{}'' @ [CHR 0x0A])"
proof -
  have j: "json_Encode example_env (MapPayload [(''jql'', Str ''project = X'')])
             = Inr (''{}'' @ [CHR 0x0A])"
    by (simp add: example_env_def)
  show ?thesis
  using NewRequest_payload [of example_env
            "example_client offline NewAuthenticationService" "()"
            "''POST''" "''rest/api/3/issue/1/attachments''"
            "''multipart/form-data''" "Buffer ''--b content --b--''",
            OF example_NewRequest]
        NewRequest_payload [of example_env
            "example_client offline NewAuthenticationService" "()"
            "''POST''" "''rest/api/3/issue/archive''"
            "''''" "Value (MapPayload [(''jql'', Str ''project = X'')])",
            OF example_NewRequest]
    by (simp add: example_NewRequest j)
qed

lemma Preserve_calls_connector:
  "issueIdsOrKeys \<noteq> [] \<Longrightarrow> snd (Preserve i ctx issueIdsOrKeys) \<noteq> []"
  by (simp add: Preserve_def Let_def split: sum.splits prod.splits option.splits)

lemma example_Export:
  "Export (example_archival code url b) () payload =
     (let endpoint = ''rest/api/3/issues/archive/export'';
          request = \<lparr>Method = ''PUT'', URL = ''https://x.atlassian.net/'' @ endpoint,
                     Header = requestHeaders example_env NewAuthenticationService ''''
                                (Value (ExportPayload payload)),
                     Body = ''{}'' @ [CHR 0x0A]\<rparr>
      in case Client_processResponse example_env
                \<lparr>StatusCode = code, Request = request\<lparr>URL := url\<rparr>, Body_R = b\<rparr> None of
           (response, Some e, d) \<Rightarrow> (('''', response, Some e), [Built ''PUT'' endpoint, Sent request])
         | (response, None, d) \<Rightarrow> (('''', response, None), [Built ''PUT'' endpoint, Sent request]))"
  by (simp add: Export_def example_archival_def NewIssueArchivalService_def
        Client_Connector_def APIVersion_def example_NewRequest example_Call Let_def)

section \<open>Archival methods\<close>

text \<open>
  C8. With an empty list of issue IDs, \<^verbatim>\<open>Preserve\<close> and \<^verbatim>\<open>Restore\<close> return the no-issues
  error with a nil result and a nil response; with an empty JQL string, \<^verbatim>\<open>PreserveByJQL\<close>
  returns the no-JQL error with an empty task ID and a nil response. In all three cases
  the connector is not called: no request is built and none is sent.
\<close>

theorem archival_validates_first:
  "Preserve i ctx [] = ((None, None, Some ErrNoIssuesSlice), [])
   \<and> Restore i ctx [] = ((None, None, Some ErrNoIssuesSlice), [])
   \<and> PreserveByJQL i ctx '''' = (('''', None, Some ErrNoJQL), [])"
  by (simp add: Preserve_def Restore_def PreserveByJQL_def)

text \<open>The three methods on a client whose transport would answer any request.\<close>

theorem archival_validates_first_witness:
  "Preserve (example_archival 200 archive_url (Inr ''{}'')) () []
     = ((None, None, Some ErrNoIssuesSlice), [])
   \<and> Restore (example_archival 200 archive_url (Inr ''{}'')) () []
     = ((None, None, Some ErrNoIssuesSlice), [])
   \<and> PreserveByJQL (example_archival 200 archive_url (Inr ''{}'')) () ''''
     = (('''', None, Some ErrNoJQL), [])"
  using archival_validates_first [of "example_archival 200 archive_url (Inr ''{}'')" "()"]
  by simp

text \<open>
  C10. The task ID that \<^verbatim>\<open>Export\<close> returns is the empty string, on every path: with an
  error and without one. No task identifier is taken from the response.
\<close>

theorem Export_taskID_empty: "fst (fst (Export i ctx payload)) = ''''"
  by (simp add: Export_def Let_def split: sum.splits prod.splits option.splits)

text \<open>
  An export answered with 202 and the task URL as body completes without error and
  returns the empty task ID, where \<^verbatim>\<open>path.Base\<close> of the body would be 10042.
\<close>

theorem Export_taskID_empty_witness:
  "fst (Export (example_archival 202 archive_url (Inr task_url)) () None)
     = ('''',
        Some (envelope
                \<lparr>StatusCode = 202,
                 Request = \<lparr>Method = ''PUT'', URL = archive_url,
                            Header = requestHeaders example_env NewAuthenticationService ''''
                                       (Value (ExportPayload None)),
                            Body = ''{}'' @ [CHR 0x0A]\<rparr>,
                 Body_R = Inr task_url\<rparr>
                task_url),
        None)
   \<and> path_Base task_url = ''10042''"
proof -
  let ?r = "Export (example_archival 202 archive_url (Inr task_url)) () None"
  have ev: "snd (fst ?r) =
       (Some (envelope
                \<lparr>StatusCode = 202,
                 Request = \<lparr>Method = ''PUT'', URL = archive_url,
                            Header = requestHeaders example_env NewAuthenticationService ''''
                                       (Value (ExportPayload None)),
                            Body = ''{}'' @ [CHR 0x0A]\<rparr>,
                 Body_R = Inr task_url\<rparr>
                task_url),
        None)"
    by (simp add: example_Export processResponse_read envelope_def Let_def)
  have "fst ?r = (fst (fst ?r), snd (fst ?r))" by simp
  with ev Export_taskID_empty [of "example_archival 202 archive_url (Inr task_url)" "()" None]
  show ?thesis by (simp add: path_Base_task_url)
qed

end
